theory Spec2Isabelle
  imports Main "HOL-Library.Sublist" "HOL-Library.AList"
begin

section \<open>Python values, exceptions and the string operations the decoders use\<close>

text \<open>
  The decoders of \<^verbatim>\<open>train_api/utils.py\<close> take a text and return a dictionary with the
  keys \<^verbatim>\<open>success\<close>, \<^verbatim>\<open>time_stamp\<close> and \<^verbatim>\<open>data\<close>. A Python \<^verbatim>\<open>str\<close> is a \<open>string\<close>
  here (exact on ASCII text; text beyond ASCII stands as its UTF-8 bytes). A dictionary is
  an association list in insertion order, as Python keeps it. The type parameter \<open>'j\<close> is
  the type of the values the JSON parser returns; the decoders pass them on unopened.
\<close>

datatype 'j pyval =
    PBool bool
  | PInt int
  | PStr string
  | PList "'j pyval list"
  | PDict "(string \<times> 'j pyval) list"
  | PJson 'j

type_synonym 'j pydict = "(string \<times> 'j pyval) list"

datatype py_error =
    IndexError string
  | ValueError string
  | OverflowError string
  | JSONDecodeError string
  | OtherException string

fun str_of_error :: "py_error \<Rightarrow> string" where
  "str_of_error (IndexError m) = m"
| "str_of_error (ValueError m) = m"
| "str_of_error (OverflowError m) = m"
| "str_of_error (JSONDecodeError m) = m"
| "str_of_error (OtherException m) = m"

definition bind_exc :: "py_error + 'a \<Rightarrow> ('a \<Rightarrow> py_error + 'b) \<Rightarrow> py_error + 'b" where
  "bind_exc m f = (case m of Inl e \<Rightarrow> Inl e | Inr x \<Rightarrow> f x)"

text \<open>\<^verbatim>\<open>xs[i]\<close> for a literal index \<open>i \<ge> 0\<close>: IndexError out of range.\<close>

definition py_index :: "'a list \<Rightarrow> nat \<Rightarrow> py_error + 'a" where
  "py_index xs i =
     (if i < length xs then Inr (xs ! i) else Inl (IndexError ''list index out of range''))"

text \<open>\<^verbatim>\<open>xs.pop(0)\<close>, returning the list that is left.\<close>

definition py_pop0 :: "'a list \<Rightarrow> py_error + 'a list" where
  "py_pop0 xs = (case xs of [] \<Rightarrow> Inl (IndexError ''pop from empty list'') | _ # r \<Rightarrow> Inr r)"

text \<open>
  \<^verbatim>\<open>s.split(sep)\<close> for a non-empty separator: the occurrences of \<open>sep\<close> are found from
  the left and do not overlap; the empty text gives one empty part.
\<close>

fun py_split :: "string \<Rightarrow> string \<Rightarrow> string list" where
  "py_split sep [] = [[]]"
| "py_split sep (c # cs) =
     (if sep \<noteq> [] \<and> prefix sep (c # cs)
      then [] # py_split sep (drop (length sep - 1) cs)
      else (case py_split sep cs of
              [] \<Rightarrow> [[c]]
            | h # t \<Rightarrow> (c # h) # t))"

text \<open>\<^verbatim>\<open>sub in s\<close> for texts.\<close>

fun py_in :: "string \<Rightarrow> string \<Rightarrow> bool" where
  "py_in sub [] = (sub = [])"
| "py_in sub (c # cs) = (prefix sub (c # cs) \<or> py_in sub cs)"

text \<open>\<^verbatim>\<open>s.replace(c, "")\<close> for a single character \<open>c\<close>.\<close>

definition py_replace_del :: "char \<Rightarrow> string \<Rightarrow> string" where
  "py_replace_del c s = filter (\<lambda>x. x \<noteq> c) s"

text \<open>\<^verbatim>\<open>[el for el in xs if el]\<close>: the non-empty texts of a list.\<close>

definition non_empty :: "string list \<Rightarrow> string list" where
  "non_empty xs = filter (\<lambda>el. el \<noteq> []) xs"

text \<open>Whitespace of \<^verbatim>\<open>str.strip()\<close> and of the pattern \<^verbatim>\<open>\s\<close>, on ASCII.\<close>

definition is_space :: "char \<Rightarrow> bool" where
  "is_space c = (let n = (of_char c :: nat) in n = 32 \<or> (9 \<le> n \<and> n \<le> 13) \<or> (28 \<le> n \<and> n \<le> 31))"

definition py_strip :: "string \<Rightarrow> string" where
  "py_strip s = rev (dropWhile is_space (rev (dropWhile is_space s)))"

text \<open>\<^verbatim>\<open>s.isdigit()\<close> on ASCII: a non-empty text of decimal digits.\<close>

definition py_isdigit :: "string \<Rightarrow> bool" where
  "py_isdigit s = (s \<noteq> [] \<and> list_all (\<lambda>c. 48 \<le> (of_char c :: nat) \<and> (of_char c :: nat) \<le> 57) s)"

text \<open>Dictionary store \<^verbatim>\<open>d[k] = v\<close> and \<^verbatim>\<open>d.get(k, default)\<close>; truth of a value.\<close>

definition dict_set :: "'j pydict \<Rightarrow> string \<Rightarrow> 'j pyval \<Rightarrow> 'j pydict" where
  "dict_set d k v = AList.update k v d"

definition dict_get :: "'j pydict \<Rightarrow> string \<Rightarrow> 'j pyval \<Rightarrow> 'j pyval" where
  "dict_get d k dflt = (case map_of d k of None \<Rightarrow> dflt | Some v \<Rightarrow> v)"

fun truthy :: "'j pyval \<Rightarrow> bool" where
  "truthy (PBool b) = b"
| "truthy (PInt i) = (i \<noteq> 0)"
| "truthy (PStr s) = (s \<noteq> [])"
| "truthy (PList xs) = (xs \<noteq> [])"
| "truthy (PDict d) = (d \<noteq> [])"
| "truthy (PJson j) = True"

text \<open>
  The three stores \<^verbatim>\<open>retval["success"] = s; retval["time_stamp"] = now; retval["data"] = d\<close>.
  The clock \<^verbatim>\<open>_current_timestamp_ms()\<close> is read outside the model: \<open>now\<close> is its value.
\<close>

definition set_envelope :: "'j pydict \<Rightarrow> bool \<Rightarrow> int \<Rightarrow> 'j pyval \<Rightarrow> 'j pydict" where
  "set_envelope retval s now d =
     dict_set (dict_set (dict_set retval ''success'' (PBool s)) ''time_stamp'' (PInt now)) ''data'' d"

text \<open>The dictionary literal \<^verbatim>\<open>{"success": s, "time_stamp": now, "data": d}\<close>.\<close>

definition envelope :: "bool \<Rightarrow> int \<Rightarrow> 'j pyval \<Rightarrow> 'j pydict" where
  "envelope s now d = [(''success'', PBool s), (''time_stamp'', PInt now), (''data'', d)]"

definition sentinel :: string where
  "sentinel = ''~~~~~~~~''"

section \<open>The running-days field\<close>

text \<open>
  \<^verbatim>\<open>parsed = [1 if day_char == 'Y' else 0 for day_char in raw]\<close>, then the two stores of
  \<^verbatim>\<open>running_days_str\<close> and \<^verbatim>\<open>running_days\<close> (the same in both decoders).
\<close>

definition parsed_running_days :: "string \<Rightarrow> int list" where
  "parsed_running_days raw = map (\<lambda>day_char. if day_char = CHR ''Y'' then 1 else 0) raw"

definition set_running_days :: "'j pydict \<Rightarrow> string \<Rightarrow> 'j pydict" where
  "set_running_days obj raw =
     (if length (parsed_running_days raw) = 7
      then dict_set (dict_set obj ''running_days_str'' (PStr raw))
                    ''running_days'' (PList (map PInt (parsed_running_days raw)))
      else dict_set (dict_set obj ''running_days_str'' (PStr raw))
                    ''running_days'' (PList []))"

section \<open>between_station_logic\<close>

definition potential_error_messages :: "string list" where
  "potential_error_messages =
     [''~~~~~Please try again after some time.'',
      ''~~~~~From station not found'',
      ''~~~~~To station not found'']"

text \<open>
  The inner \<^verbatim>\<open>try\<close> of the "No direct trains found" check: \<open>Some\<close> is the dictionary it
  returns, \<open>None\<close> is falling through to the checks below.
\<close>

definition no_direct_try :: "int \<Rightarrow> 'j pydict \<Rightarrow> string \<Rightarrow> py_error + 'j pydict option" where
  "no_direct_try now retval first_part_for_no_direct =
     (let nore_check_parts = py_split ''~'' first_part_for_no_direct in
      if length nore_check_parts > 5 then
        bind_exc (py_index nore_check_parts 5) (\<lambda>p5.
        bind_exc (py_index (py_split ''<'' p5) 0) (\<lambda>message_part.
          if message_part = ''No direct trains found''
          then Inr (Some (set_envelope retval False now (PStr message_part)))
          else Inr None))
      else Inr None)"

definition no_direct_check :: "int \<Rightarrow> 'j pydict \<Rightarrow> string \<Rightarrow> py_error + 'j pydict option" where
  "no_direct_check now retval api_response_text =
     (if py_in ''No direct trains found'' api_response_text then
        bind_exc (py_index (py_split sentinel api_response_text) 0) (\<lambda>first_part_for_no_direct.
          case no_direct_try now retval first_part_for_no_direct of
            Inl (IndexError m) \<Rightarrow> Inr None
          | r \<Rightarrow> r)
      else Inr None)"

text \<open>The dictionary \<^verbatim>\<open>obj\<close> of one train, from the fields of a segment.\<close>

definition train_summary_obj :: "string list \<Rightarrow> py_error + 'j pydict" where
  "train_summary_obj train_details =
     bind_exc (py_index train_details 0) (\<lambda>f0.
     bind_exc (py_index train_details 1) (\<lambda>f1.
     bind_exc (py_index train_details 2) (\<lambda>f2.
     bind_exc (py_index train_details 3) (\<lambda>f3.
     bind_exc (py_index train_details 4) (\<lambda>f4.
     bind_exc (py_index train_details 5) (\<lambda>f5.
     bind_exc (py_index train_details 6) (\<lambda>f6.
     bind_exc (py_index train_details 7) (\<lambda>f7.
     bind_exc (py_index train_details 8) (\<lambda>f8.
     bind_exc (py_index train_details 9) (\<lambda>f9.
     bind_exc (py_index train_details 10) (\<lambda>f10.
     bind_exc (py_index train_details 11) (\<lambda>f11.
     bind_exc (py_index train_details 12) (\<lambda>f12.
     bind_exc (py_index train_details 13) (\<lambda>raw_running_days.
       Inr (set_running_days
              [(''train_no'', PStr f0), (''train_name'', PStr f1),
               (''source_stn_name'', PStr f2), (''source_stn_code'', PStr f3),
               (''dstn_stn_name'', PStr f4), (''dstn_stn_code'', PStr f5),
               (''from_stn_name'', PStr f6), (''from_stn_code'', PStr f7),
               (''to_stn_name'', PStr f8), (''to_stn_code'', PStr f9),
               (''from_time'', PStr f10), (''to_time'', PStr f11),
               (''travel_time'', PStr f12)]
              raw_running_days)))))))))))))))"

text \<open>The body of the loop over the segments: \<open>arr\<close> after the segment.\<close>

definition between_station_segment :: "string \<Rightarrow> 'j pyval list \<Rightarrow> py_error + 'j pyval list" where
  "between_station_segment segment arr =
     (let parts = py_split ''~^'' segment in
      if length parts = 2 then
        bind_exc (py_index parts 1) (\<lambda>train_data_str.
          let train_details = non_empty (py_split ''~'' train_data_str) in
          if length train_details \<ge> 14 then
            bind_exc (train_summary_obj train_details) (\<lambda>obj.
              Inr (arr @ [PDict [(''train_base'', PDict obj)]]))
          else Inr arr)
      else Inr arr)"

fun between_station_loop :: "string list \<Rightarrow> 'j pyval list \<Rightarrow> py_error + 'j pyval list" where
  "between_station_loop [] arr = Inr arr"
| "between_station_loop (segment # rest) arr =
     (case between_station_segment segment arr of
        Inl e \<Rightarrow> Inl e
      | Inr arr' \<Rightarrow> between_station_loop rest arr')"

text \<open>The body of the outer \<^verbatim>\<open>try\<close>.\<close>

definition between_station_body :: "int \<Rightarrow> string \<Rightarrow> py_error + 'j pydict" where
  "between_station_body now api_response_text =
     (let retval = [] in
      bind_exc (no_direct_check now retval api_response_text) (\<lambda>early.
        case early of
          Some r \<Rightarrow> Inr r
        | None \<Rightarrow>
            bind_exc (py_index (py_split sentinel api_response_text) 0) (\<lambda>first_segment_error_check.
              if first_segment_error_check \<in> set potential_error_messages
              then Inr (set_envelope retval False now
                          (PStr (py_replace_del CHR ''~'' first_segment_error_check)))
              else
                let data_segments = non_empty (py_split sentinel api_response_text) in
                if data_segments = [] \<and> retval = []
                then Inr (set_envelope retval False now
                            (PStr ''Unknown error or empty response from API.''))
                else
                  bind_exc (between_station_loop data_segments []) (\<lambda>arr.
                    if arr = [] \<and> \<not> truthy (dict_get retval ''success'' (PBool True))
                    then Inr (set_envelope retval False now
                                (PStr ''No train data could be parsed.''))
                    else if arr = [] \<and> truthy (dict_get retval ''success'' (PBool True))
                    then Inr (set_envelope retval False now
                                (PStr ''No direct trains found or data format issue.''))
                    else Inr (set_envelope retval True now (PList arr))))))"

definition between_station_logic :: "int \<Rightarrow> string \<Rightarrow> 'j pydict" where
  "between_station_logic now api_response_text =
     (case between_station_body now api_response_text of
        Inr r \<Rightarrow> r
      | Inl e \<Rightarrow> envelope False now
                  (PStr (''An error occurred during data processing: '' @ str_of_error e)))"

section \<open>check_train_logic\<close>

definition error_messages :: "string list" where
  "error_messages =
     [''~~~~~Please try again after some time.'',
      ''~~~~~Train not found'']"

text \<open>The repair of the first part: \<open>details_part1\<close> after the two nested conditionals.\<close>

definition shift_repair :: "string list \<Rightarrow> py_error + string list" where
  "shift_repair details_part1 =
     (if details_part1 \<noteq> [] \<and> length details_part1 > 1 then
        bind_exc (py_index details_part1 1) (\<lambda>d1.
          if length d1 > 6 then
            bind_exc (py_index details_part1 0) (\<lambda>d0.
              if d0 = ''^'' then py_pop0 details_part1
              else if length d0 > 6 \<and> length details_part1 > 1 \<and> \<not> py_isdigit d0
              then py_pop0 details_part1
              else Inr details_part1)
          else Inr details_part1)
      else Inr details_part1)"

definition train_detail_obj :: "string list \<Rightarrow> py_error + 'j pydict" where
  "train_detail_obj details_part1 =
     bind_exc (py_index details_part1 0) (\<lambda>f0.
     bind_exc (py_index details_part1 1) (\<lambda>f1.
     bind_exc (py_index details_part1 2) (\<lambda>f2.
     bind_exc (py_index details_part1 3) (\<lambda>f3.
     bind_exc (py_index details_part1 4) (\<lambda>f4.
     bind_exc (py_index details_part1 5) (\<lambda>f5.
     bind_exc (py_index details_part1 10) (\<lambda>f10.
     bind_exc (py_index details_part1 11) (\<lambda>f11.
     bind_exc (py_index details_part1 12) (\<lambda>f12.
     bind_exc (py_index details_part1 13) (\<lambda>raw_running_days_ct.
       Inr (set_running_days
              [(''train_no'', PStr (py_replace_del CHR ''^'' f0)), (''train_name'', PStr f1),
               (''from_stn_name'', PStr f2), (''from_stn_code'', PStr f3),
               (''to_stn_name'', PStr f4), (''to_stn_code'', PStr f5),
               (''from_time'', PStr f10), (''to_time'', PStr f11),
               (''travel_time'', PStr f12)]
              raw_running_days_ct)))))))))))"

text \<open>The four stores from the second part.\<close>

definition set_part2 :: "'j pydict \<Rightarrow> string list \<Rightarrow> py_error + 'j pydict" where
  "set_part2 obj details_part2 =
     bind_exc (py_index details_part2 11) (\<lambda>g11.
     bind_exc (py_index details_part2 12) (\<lambda>g12.
     bind_exc (py_index details_part2 18) (\<lambda>g18.
     bind_exc (py_index details_part2 19) (\<lambda>g19.
       Inr (dict_set (dict_set (dict_set (dict_set obj
              ''type'' (PStr g11)) ''train_id'' (PStr g12))
              ''distance_from_to'' (PStr g18)) ''average_speed'' (PStr g19))))))"

definition check_train_body :: "int \<Rightarrow> string \<Rightarrow> py_error + 'j pydict" where
  "check_train_body now api_response_text =
     (let retval = [] in
      bind_exc (py_index (py_split sentinel api_response_text) 0) (\<lambda>first_segment_error_check.
        if first_segment_error_check \<in> set error_messages
        then Inr (set_envelope retval False now
                    (PStr (py_replace_del CHR ''~'' first_segment_error_check)))
        else
          let data_segments = py_split sentinel api_response_text in
          if length data_segments < 2
          then Inr (envelope False now (PStr ''Invalid data format for train details.''))
          else
            bind_exc (py_index data_segments 0) (\<lambda>details_part1_str.
            bind_exc (shift_repair (non_empty (py_split ''~'' details_part1_str))) (\<lambda>details_part1.
              if length details_part1 < 15
              then Inr (envelope False now
                          (PStr ''Not enough data in the first part of train details.''))
              else
                bind_exc (train_detail_obj details_part1) (\<lambda>obj.
                bind_exc (py_index data_segments 1) (\<lambda>details_part2_str.
                  let details_part2 = non_empty (py_split ''~'' details_part2_str) in
                  if length details_part2 < 20
                  then Inr (envelope False now
                              (PStr ''Not enough data in the second part of train details.''))
                  else
                    bind_exc (set_part2 obj details_part2) (\<lambda>obj.
                      Inr (set_envelope retval True now (PDict obj)))))))))"

definition check_train_logic :: "int \<Rightarrow> string \<Rightarrow> 'j pydict" where
  "check_train_logic now api_response_text =
     (case check_train_body now api_response_text of
        Inr r \<Rightarrow> r
      | Inl (IndexError m) \<Rightarrow>
          envelope False now (PStr (''Data parsing error (index out of bounds): '' @ m))
      | Inl e \<Rightarrow> envelope False now (PStr (''An error occurred: '' @ str_of_error e)))"

section \<open>get_day_on_date_logic\<close>

text \<open>
  \<^verbatim>\<open>datetime(yyyy, mm, dd)\<close> and \<^verbatim>\<open>weekday()\<close> belong to Python's standard library, and
  are modelled as CPython has them: the proleptic Gregorian calendar, years 1 to 9999,
  Monday as weekday 0. The constructor first converts each argument to a C \<^verbatim>\<open>int\<close>, with
  OverflowError for a number that does not fit, and then checks the date, with ValueError
  for a date outside the calendar.
\<close>

definition is_leap :: "int \<Rightarrow> bool" where
  "is_leap year = (year mod 4 = 0 \<and> (year mod 100 \<noteq> 0 \<or> year mod 400 = 0))"

definition days_in_month :: "int \<Rightarrow> int \<Rightarrow> int" where
  "days_in_month year month =
     (if month = 2 \<and> is_leap year then 29
      else [31, 28, 31, 30, 31, 30, 31, 31, 30, 31, 30, 31] ! nat (month - 1))"

definition days_before_year :: "int \<Rightarrow> int" where
  "days_before_year year =
     (let y = year - 1 in y * 365 + y div 4 - y div 100 + y div 400)"

definition days_before_month :: "int \<Rightarrow> int \<Rightarrow> int" where
  "days_before_month year month =
     [0, 31, 59, 90, 120, 151, 181, 212, 243, 273, 304, 334] ! nat (month - 1)
       + (if month > 2 \<and> is_leap year then 1 else 0)"

definition toordinal :: "int \<Rightarrow> int \<Rightarrow> int \<Rightarrow> int" where
  "toordinal year month day = days_before_year year + days_before_month year month + day"

definition valid_date :: "int \<Rightarrow> int \<Rightarrow> int \<Rightarrow> bool" where
  "valid_date year month day =
     (1 \<le> year \<and> year \<le> 9999 \<and> 1 \<le> month \<and> month \<le> 12
      \<and> 1 \<le> day \<and> day \<le> days_in_month year month)"

text \<open>The conversion of one argument to a C \<^verbatim>\<open>int\<close>: the exception raised, if any.\<close>

definition c_int_arg :: "int \<Rightarrow> py_error option" where
  "c_int_arg n =
     (if n < - (2 ^ 63) \<or> 2 ^ 63 \<le> n
      then Some (OverflowError ''Python int too large to convert to C long'')
      else if 2 ^ 31 \<le> n
      then Some (OverflowError ''signed integer is greater than maximum'')
      else if n < - (2 ^ 31)
      then Some (OverflowError ''signed integer is less than minimum'')
      else None)"

definition datetime :: "int \<Rightarrow> int \<Rightarrow> int \<Rightarrow> py_error + (int \<times> int \<times> int)" where
  "datetime year month day =
     (case c_int_arg year of
        Some e \<Rightarrow> Inl e
      | None \<Rightarrow>
          (case c_int_arg month of
             Some e \<Rightarrow> Inl e
           | None \<Rightarrow>
               (case c_int_arg day of
                  Some e \<Rightarrow> Inl e
                | None \<Rightarrow>
                    if valid_date year month day then Inr (year, month, day)
                    else Inl (ValueError ''date out of range''))))"

definition weekday :: "int \<times> int \<times> int \<Rightarrow> int" where
  "weekday date_obj = (case date_obj of (year, month, day) \<Rightarrow> (toordinal year month day + 6) mod 7)"

text \<open>
  The conversions \<^verbatim>\<open>int(dd_str)\<close> are Python's own: \<open>py_int\<close> stands for the builtin,
  with \<open>None\<close> for its ValueError. The handler \<^verbatim>\<open>except ValueError\<close> returns \<open>-1\<close>; an
  exception of another class leaves the function (\<open>Inl\<close>).
\<close>

definition get_day_on_date_logic ::
    "(string \<Rightarrow> int option) \<Rightarrow> string \<Rightarrow> string \<Rightarrow> string \<Rightarrow> py_error + int" where
  "get_day_on_date_logic py_int dd_str mm_str yyyy_str =
     (case py_int dd_str of
        None \<Rightarrow> Inr (- 1)
      | Some dd \<Rightarrow>
          (case py_int mm_str of
             None \<Rightarrow> Inr (- 1)
           | Some mm \<Rightarrow>
               (case py_int yyyy_str of
                  None \<Rightarrow> Inr (- 1)
                | Some yyyy \<Rightarrow>
                    (case datetime yyyy mm dd of
                       Inl (ValueError m) \<Rightarrow> Inr (- 1)
                     | Inl e \<Rightarrow> Inl e
                     | Inr date_obj \<Rightarrow>
                         (let py_weekday = weekday date_obj;
                              mapped_day_index = (py_weekday + 5) mod 7
                          in Inr mapped_day_index)))))"

text \<open>A reader of plain decimal numerals, to run the function on concrete dates.\<close>

definition decimal :: "string \<Rightarrow> int option" where
  "decimal s =
     (if s \<noteq> [] \<and> list_all (\<lambda>c. 48 \<le> (of_char c :: nat) \<and> (of_char c :: nat) \<le> 57) s
      then Some (foldl (\<lambda>acc c. 10 * acc + (int (of_char c) - 48)) 0 s)
      else None)"

section \<open>get_route_logic\<close>






section \<open>live_station_logic\<close>

text \<open>
  The document is a BeautifulSoup object, which is not code of this repository. The model
  takes what the traversal reads from it: the nodes that \<^verbatim>\<open>soup.select('.name')\<close> yields,
  in its order, each with the answers of the library to the three queries made on it.
\<close>

record name_el =
  el_text :: string
    \<comment> \<open>\<^verbatim>\<open>item_name_el.get_text(strip=True)\<close>\<close>
  el_next_div :: "string option"
    \<comment> \<open>\<^verbatim>\<open>find_next_sibling("div")\<close>: \<open>None\<close>, or the \<^verbatim>\<open>get_text(strip=True)\<close> of the node found\<close>
  el_parent_td :: "string option option"
    \<comment> \<open>\<^verbatim>\<open>find_parent("td")\<close>: \<open>None\<close>, or what its \<^verbatim>\<open>find_next_sibling("td")\<close> gives:
        \<open>None\<close>, or the \<^verbatim>\<open>get_text(strip=True)\<close> of the cell found\<close>

text \<open>The arrow U+2192 that separates source and destination.\<close>

definition arrow :: string where
  "arrow = [CHR 0xE2, CHR 0x86, CHR 0x92]"

definition live_station_entry :: "name_el \<Rightarrow> py_error + 'j pydict" where
  "live_station_entry item_name_el =
     (let obj = [];
          full_train_text = el_text item_name_el;
          obj = dict_set obj ''train_no'' (PStr (take 5 full_train_text));
          obj = dict_set obj ''train_name'' (PStr (py_strip (drop 5 full_train_text)))
      in
      bind_exc
        (case el_next_div item_name_el of
           Some div_text \<Rightarrow>
             (let source_dest_parts = py_split arrow div_text in
              bind_exc (if length source_dest_parts > 0
                        then bind_exc (py_index source_dest_parts 0) (\<lambda>p. Inr (py_strip p))
                        else Inr []) (\<lambda>src.
              bind_exc (if length source_dest_parts > 1
                        then bind_exc (py_index source_dest_parts 1) (\<lambda>p. Inr (py_strip p))
                        else Inr []) (\<lambda>dst.
                Inr (dict_set (dict_set obj ''source_stn_name'' (PStr src))
                       ''dstn_stn_name'' (PStr dst)))))
         | None \<Rightarrow>
             Inr (dict_set (dict_set obj ''source_stn_name'' (PStr []))
                    ''dstn_stn_name'' (PStr [])))
        (\<lambda>obj.
           case el_parent_td item_name_el of
             Some (Some status_text) \<Rightarrow>
               Inr (dict_set (dict_set obj ''time_at'' (PStr (take 5 status_text)))
                      ''detail'' (PStr (py_strip (drop 5 status_text))))
           | Some None \<Rightarrow>
               Inr (dict_set (dict_set obj ''time_at'' (PStr [])) ''detail'' (PStr []))
           | None \<Rightarrow>
               Inr (dict_set (dict_set obj ''time_at'' (PStr [])) ''detail'' (PStr []))))"

fun live_station_loop :: "name_el list \<Rightarrow> 'j pyval list \<Rightarrow> py_error + 'j pyval list" where
  "live_station_loop [] arr = Inr arr"
| "live_station_loop (item_name_el # rest) arr =
     (case live_station_entry item_name_el of
        Inl e \<Rightarrow> Inl e
      | Inr obj \<Rightarrow> live_station_loop rest (arr @ [PDict obj]))"

definition live_station_body :: "int \<Rightarrow> name_el list \<Rightarrow> py_error + 'j pydict" where
  "live_station_body now soup =
     (let retval = [] in
      bind_exc (live_station_loop soup []) (\<lambda>arr.
        Inr (set_envelope retval True now (PList arr))))"

definition live_station_logic :: "int \<Rightarrow> name_el list \<Rightarrow> 'j pydict" where
  "live_station_logic now soup =
     (case live_station_body now soup of
        Inr r \<Rightarrow> r
      | Inl e \<Rightarrow> envelope False now
                  (PStr (''An error occurred during HTML parsing: '' @ str_of_error e)))"

section \<open>pnr_status_logic\<close>

text \<open>
  \<^verbatim>\<open>re.search(r"data\s*=\s*({.*?});", html_string, re.DOTALL)\<close>, written out for this one
  pattern. \<open>find_close\<close> is the lazy \<^verbatim>\<open>.*?\<close> before \<^verbatim>\<open>};\<close>: the text up to the first \<^verbatim>\<open>};\<close>.
  \<open>match_here\<close> is a match that starts at the head of the text, \<open>re_search\<close> the leftmost
  one; both give group 1, the braces and what they hold.
\<close>

fun find_close :: "string \<Rightarrow> string option" where
  "find_close [] = None"
| "find_close (c # cs) =
     (if prefix ''};'' (c # cs) then Some []
      else map_option ((#) c) (find_close cs))"

definition match_here :: "string \<Rightarrow> string option" where
  "match_here s =
     (if prefix ''data'' s then
        (case dropWhile is_space (drop 4 s) of
           [] \<Rightarrow> None
         | c1 # r1 \<Rightarrow>
             if c1 = CHR ''='' then
               (case dropWhile is_space r1 of
                  [] \<Rightarrow> None
                | c2 # r2 \<Rightarrow>
                    if c2 = CHR ''{'' then
                      (case find_close r2 of
                         None \<Rightarrow> None
                       | Some body \<Rightarrow> Some (CHR ''{'' # body @ ''}''))
                    else None)
             else None)
      else None)"




section \<open>Notions used to state the properties\<close>

text \<open>
  Names for the parts of a text that the decoders read: the fields of a segment of
  \<^verbatim>\<open>between_station_logic\<close>, the two parts of \<^verbatim>\<open>check_train_logic\<close>, the repair of the
  first part as the specification words it, and the dictionaries built from the fields.
\<close>

abbreviation train_fields :: "string \<Rightarrow> string list" where
  "train_fields segment \<equiv> non_empty (py_split ''~'' (py_split ''~^'' segment ! 1))"

abbreviation usable_segment :: "string \<Rightarrow> bool" where
  "usable_segment segment \<equiv>
     length (py_split ''~^'' segment) = 2 \<and> 14 \<le> length (train_fields segment)"

abbreviation train_summary :: "string list \<Rightarrow> 'j pydict" where
  "train_summary f \<equiv>
       [(''train_no'', PStr (f ! 0)), (''train_name'', PStr (f ! 1)),
        (''source_stn_name'', PStr (f ! 2)), (''source_stn_code'', PStr (f ! 3)),
        (''dstn_stn_name'', PStr (f ! 4)), (''dstn_stn_code'', PStr (f ! 5)),
        (''from_stn_name'', PStr (f ! 6)), (''from_stn_code'', PStr (f ! 7)),
        (''to_stn_name'', PStr (f ! 8)), (''to_stn_code'', PStr (f ! 9)),
        (''from_time'', PStr (f ! 10)), (''to_time'', PStr (f ! 11)),
        (''travel_time'', PStr (f ! 12)),
        (''running_days_str'', PStr (f ! 13)),
        (''running_days'',
           PList (map PInt (if length (f ! 13) = 7 then parsed_running_days (f ! 13) else [])))]"










abbreviation live_entry :: "name_el \<Rightarrow> 'j pyval" where
  "live_entry el \<equiv>
     PDict [(''train_no'', PStr (take 5 (el_text el))),
            (''train_name'', PStr (py_strip (drop 5 (el_text el)))),
            (''source_stn_name'',
               PStr (case el_next_div el of
                       None \<Rightarrow> []
                     | Some div_text \<Rightarrow> py_strip (hd (py_split arrow div_text)))),
            (''dstn_stn_name'',
               PStr (case el_next_div el of
                       None \<Rightarrow> []
                     | Some div_text \<Rightarrow>
                         if 1 < length (py_split arrow div_text)
                         then py_strip (py_split arrow div_text ! 1) else [])),
            (''time_at'',
               PStr (case el_parent_td el of
                       Some (Some status_text) \<Rightarrow> take 5 status_text
                     | _ \<Rightarrow> [])),
            (''detail'',
               PStr (case el_parent_td el of
                       Some (Some status_text) \<Rightarrow> py_strip (drop 5 status_text)
                     | _ \<Rightarrow> []))]"


section \<open>Basic facts\<close>

lemma bind_exc_Inr [simp]: "bind_exc (Inr x) f = f x"
  by (simp add: bind_exc_def)

lemma bind_exc_Inl [simp]: "bind_exc (Inl e) f = Inl e"
  by (simp add: bind_exc_def)

lemma py_split_not_Nil [simp]: "py_split sep s \<noteq> []"
  by (induction sep s rule: py_split.induct) (auto split: list.splits)

lemma py_index_split_0 [simp]: "py_index (py_split sep s) 0 = Inr (hd (py_split sep s))"
  using py_split_not_Nil [of sep s] by (cases "py_split sep s") (auto simp: py_index_def)

lemma py_index_in_range [simp]: "i < length xs \<Longrightarrow> py_index xs i = Inr (xs ! i)"
  by (simp add: py_index_def)

lemma set_envelope_Nil [simp]: "set_envelope [] s now d = envelope s now d"
  by (simp add: set_envelope_def envelope_def dict_set_def)

declare py_split.simps(2) [simp del]

section \<open>The upstream error sentinels\<close>

lemma no_direct_try_sentinels:
  "seg \<in> set potential_error_messages \<Longrightarrow> no_direct_try now retval seg = Inr None"
  unfolding potential_error_messages_def
  by (auto simp: no_direct_try_def py_index_def py_split.simps)

lemma no_direct_check_sentinels:
  "hd (py_split sentinel text) \<in> set potential_error_messages
     \<Longrightarrow> no_direct_check now retval text = Inr None"
  by (simp add: no_direct_check_def no_direct_try_sentinels)

text \<open>
  Claim C1. When the first part of the text, split on the sentinel \<^verbatim>\<open>~~~~~~~~\<close>, is one of
  the three error messages of \<^verbatim>\<open>between_station_logic\<close> (one of the two of
  \<^verbatim>\<open>check_train_logic\<close>), the decoder returns the envelope with \<^verbatim>\<open>success\<close> false and with
  \<^verbatim>\<open>data\<close> that first part without its \<^verbatim>\<open>~\<close> characters.
\<close>

theorem sentinel_first_segment_fails:
  "(hd (py_split sentinel text) \<in> set potential_error_messages \<longrightarrow>
      between_station_logic now text
        = envelope False now
            (PStr (filter (\<lambda>c. c \<noteq> CHR ''~'') (hd (py_split sentinel text)))))
   \<and> (hd (py_split sentinel text') \<in> set error_messages \<longrightarrow>
      check_train_logic now text'
        = envelope False now
            (PStr (filter (\<lambda>c. c \<noteq> CHR ''~'') (hd (py_split sentinel text')))))"
  by (simp add: between_station_logic_def between_station_body_def no_direct_check_sentinels
      check_train_logic_def check_train_body_def py_replace_del_def)

theorem sentinel_first_segment_fails_witness:
  "hd (py_split sentinel ''~~~~~To station not found~~~~~~~~x~^y'') \<in> set potential_error_messages
   \<and> (between_station_logic 7 ''~~~~~To station not found~~~~~~~~x~^y'' :: unit pydict)
       = [(''success'', PBool False), (''time_stamp'', PInt 7),
          (''data'', PStr ''To station not found'')]
   \<and> hd (py_split sentinel ''~~~~~Train not found'') \<in> set error_messages
   \<and> (check_train_logic 7 ''~~~~~Train not found'' :: unit pydict)
       = [(''success'', PBool False), (''time_stamp'', PInt 7),
          (''data'', PStr ''Train not found'')]"
proof -
  have h1: "hd (py_split sentinel ''~~~~~To station not found~~~~~~~~x~^y'')
              \<in> set potential_error_messages"
    by code_simp
  have h2: "hd (py_split sentinel ''~~~~~Train not found'') \<in> set error_messages"
    by code_simp
  have e1: "filter (\<lambda>c. c \<noteq> CHR ''~'')
              (hd (py_split sentinel ''~~~~~To station not found~~~~~~~~x~^y''))
            = ''To station not found''"
    by code_simp
  have e2: "filter (\<lambda>c. c \<noteq> CHR ''~'') (hd (py_split sentinel ''~~~~~Train not found''))
            = ''Train not found''"
    by code_simp
  from sentinel_first_segment_fails
         [of "''~~~~~To station not found~~~~~~~~x~^y''" 7 "''~~~~~Train not found''"] h1 h2
  have "(between_station_logic 7 ''~~~~~To station not found~~~~~~~~x~^y'' :: unit pydict)
          = envelope False 7 (PStr (filter (\<lambda>c. c \<noteq> CHR ''~'')
              (hd (py_split sentinel ''~~~~~To station not found~~~~~~~~x~^y''))))"
    and "(check_train_logic 7 ''~~~~~Train not found'' :: unit pydict)
          = envelope False 7 (PStr (filter (\<lambda>c. c \<noteq> CHR ''~'')
              (hd (py_split sentinel ''~~~~~Train not found''))))"
    by blast+
  with h1 h2 show ?thesis
    by (simp only: e1 e2 envelope_def simp_thms)
qed

section \<open>The decoders, case by case\<close>

lemma py_index_0 [simp]: "xs \<noteq> [] \<Longrightarrow> py_index xs 0 = Inr (xs ! 0)"
  by (simp add: py_index_def)

lemma train_summary_obj_eq:
  assumes "14 \<le> length f"
  shows "train_summary_obj f = Inr (train_summary f)"
proof -
  from assms have "f \<noteq> []" by auto
  with assms show ?thesis
    by (simp add: train_summary_obj_def set_running_days_def dict_set_def parsed_running_days_def)
qed

lemma between_station_segment_eq:
  "between_station_segment segment arr =
     Inr (arr @ (if usable_segment segment
                 then [PDict [(''train_base'', PDict (train_summary (train_fields segment)))]]
                 else []))"
  by (simp add: between_station_segment_def Let_def train_summary_obj_eq)

lemma between_station_loop_eq:
  "between_station_loop segs arr =
     Inr (arr @ map (\<lambda>segment. PDict [(''train_base'', PDict (train_summary (train_fields segment)))])
                  (filter usable_segment segs))"
  by (induction segs arbitrary: arr) (simp_all add: between_station_segment_eq)

lemma no_direct_try_cases:
  "no_direct_try now ([] :: 'j pydict) seg \<noteq> Inr None \<Longrightarrow>
   no_direct_try now ([] :: 'j pydict) seg
     = Inr (Some (envelope False now (PStr ''No direct trains found'')))"
  by (simp add: no_direct_try_def Let_def split: if_splits)

lemma no_direct_check_cases:
  "no_direct_check now ([] :: 'j pydict) text \<noteq> Inr None \<Longrightarrow>
   no_direct_check now ([] :: 'j pydict) text
     = Inr (Some (envelope False now (PStr ''No direct trains found'')))"
  by (cases "no_direct_try now ([] :: 'j pydict) (hd (py_split sentinel text)) = Inr None")
     (auto simp: no_direct_check_def dest: no_direct_try_cases split: if_splits)

lemma between_station_logic_cases:
  "(between_station_logic now text :: 'j pydict) =
     (if no_direct_check now ([] :: 'j pydict) text \<noteq> Inr None
      then envelope False now (PStr ''No direct trains found'')
      else if hd (py_split sentinel text) \<in> set potential_error_messages
      then envelope False now (PStr (py_replace_del CHR ''~'' (hd (py_split sentinel text))))
      else if non_empty (py_split sentinel text) = []
      then envelope False now (PStr ''Unknown error or empty response from API.'')
      else if filter usable_segment (non_empty (py_split sentinel text)) = []
      then envelope False now (PStr ''No direct trains found or data format issue.'')
      else envelope True now
             (PList (map (\<lambda>segment. PDict [(''train_base'', PDict (train_summary (train_fields segment)))])
                       (filter usable_segment (non_empty (py_split sentinel text))))))"
proof (cases "no_direct_check now ([] :: 'j pydict) text = Inr None")
  case True
  then show ?thesis
    by (simp add: between_station_logic_def between_station_body_def Let_def
        between_station_loop_eq dict_get_def)
next
  case False
  from no_direct_check_cases [OF False] False show ?thesis
    by (simp add: between_station_logic_def between_station_body_def)
qed





section \<open>The records of between_station_logic\<close>



section \<open>The running days of a record\<close>





section \<open>The fields of check_train_logic\<close>




section \<open>The stops of get_route_logic\<close>






section \<open>The entries of live_station_logic\<close>

lemma live_station_entry_eq:
  "live_station_entry el = Inr (case live_entry el of PDict obj \<Rightarrow> obj)"
  by (simp add: live_station_entry_def Let_def dict_set_def split: option.splits)

lemma live_station_loop_eq:
  "live_station_loop els arr = Inr (arr @ map live_entry els)"
  by (induction els arbitrary: arr) (simp_all add: live_station_entry_eq)

lemma live_station_logic_eq:
  "live_station_logic now soup = envelope True now (PList (map live_entry soup))"
  by (simp add: live_station_logic_def live_station_body_def live_station_loop_eq)

lemma py_strip_Nil [simp]: "py_strip [] = []"
  by (simp add: py_strip_def)



section \<open>Results without records\<close>

text \<open>
  Claim C8. When no segment of the text gives a record, \<^verbatim>\<open>between_station_logic\<close> returns a
  failure envelope with a message; on the empty text it returns the failure envelope of the
  empty response, and no exception. \<^verbatim>\<open>live_station_logic\<close> on a document with no node matched
  by \<^verbatim>\<open>.name\<close> returns success with the empty list.
\<close>

theorem empty_result_policy:
  "(filter usable_segment (non_empty (py_split sentinel text)) = [] \<longrightarrow>
      (\<exists>msg. (between_station_logic now text :: 'j pydict) = envelope False now (PStr msg)))
   \<and> (between_station_logic now [] :: 'j pydict)
       = envelope False now (PStr ''Unknown error or empty response from API.'')
   \<and> (live_station_logic now [] :: 'j pydict) = envelope True now (PList [])"
proof (intro conjI impI)
  assume "filter usable_segment (non_empty (py_split sentinel text)) = []"
  then show "\<exists>msg. (between_station_logic now text :: 'j pydict) = envelope False now (PStr msg)"
    unfolding between_station_logic_cases by (simp only: if_True split: if_split) blast
next
  have "no_direct_check now ([] :: 'j pydict) [] = Inr None"
    by (simp add: no_direct_check_def)
  moreover have "py_split sentinel [] = [[]]" by simp
  ultimately show "(between_station_logic now [] :: 'j pydict)
       = envelope False now (PStr ''Unknown error or empty response from API.'')"
    by (simp add: between_station_logic_cases potential_error_messages_def non_empty_def)
next
  show "(live_station_logic now [] :: 'j pydict) = envelope True now (PList [])"
    by (simp add: live_station_logic_eq)
qed

theorem empty_result_policy_witness:
  "filter usable_segment (non_empty (py_split sentinel ''a~^b~c~~~~~~~~d'')) = []
   \<and> (\<exists>msg. (between_station_logic 7 ''a~^b~c~~~~~~~~d'' :: unit pydict)
               = envelope False 7 (PStr msg))
   \<and> (between_station_logic 7 ''a~^b~c~~~~~~~~d'' :: unit pydict)
       = [(''success'', PBool False), (''time_stamp'', PInt 7),
          (''data'', PStr ''No direct trains found or data format issue.'')]"
  (is "?h \<and> ?c \<and> ?e")
proof -
  have h: ?h by code_simp
  have e: ?e by code_simp
  note c = empty_result_policy [THEN conjunct1, THEN mp, OF h]
  show ?thesis
    by (intro conjI) (rule h c e)+
qed

section \<open>The outcomes of pnr_status_logic\<close>



lemma not_space_eq [simp]: "\<not> is_space CHR ''=''" and not_space_brace [simp]: "\<not> is_space CHR ''{''"
  by (simp_all add: is_space_def)






lemma match_here_Nil [simp]: "match_here [] = None"
  by (simp add: match_here_def)








section \<open>Every decoder returns an envelope\<close>







section \<open>The day index of a date\<close>

lemma mod7_range: "0 \<le> (x::int) mod 7 \<and> x mod 7 \<le> 6"
  using pos_mod_bound [of 7 x] pos_mod_sign [of 7 x] by simp

lemma weekday_range: "0 \<le> weekday d \<and> weekday d \<le> 6"
  by (cases d) (simp add: weekday_def)

lemma remap_table:
  assumes "0 \<le> w" and "w \<le> (6::int)"
  shows "(w + 5) mod 7 = [5, 6, 0, 1, 2, 3, 4] ! nat w"
proof -
  from assms have "w = 0 \<or> w = 1 \<or> w = 2 \<or> w = 3 \<or> w = 4 \<or> w = 5 \<or> w = 6" by arith
  then show ?thesis by auto
qed

lemma days_in_month_le: "1 \<le> month \<Longrightarrow> month \<le> 12 \<Longrightarrow> days_in_month year month \<le> 31"
proof -
  assume "1 \<le> month" "month \<le> 12"
  then have "month = 1 \<or> month = 2 \<or> month = 3 \<or> month = 4 \<or> month = 5 \<or> month = 6
     \<or> month = 7 \<or> month = 8 \<or> month = 9 \<or> month = 10 \<or> month = 11 \<or> month = 12" by arith
  then show ?thesis by (auto simp: days_in_month_def)
qed

lemma valid_date_c_int:
  assumes "valid_date year month day"
  shows "c_int_arg year = None \<and> c_int_arg month = None \<and> c_int_arg day = None"
proof -
  from assms have y: "1 \<le> year" "year \<le> 9999" and m: "1 \<le> month" "month \<le> 12"
    and d: "1 \<le> day" "day \<le> days_in_month year month"
    by (simp_all add: valid_date_def)
  from d days_in_month_le [OF m, of year] have "day \<le> 31" by linarith
  with y m d show ?thesis by (simp add: c_int_arg_def)
qed

lemma datetime_valid: "valid_date year month day \<Longrightarrow> datetime year month day = Inr (year, month, day)"
  using valid_date_c_int [of year month day] by (simp add: datetime_def)

lemma day_index_valid:
  assumes "py_int dd_str = Some dd" and "py_int mm_str = Some mm" and "py_int yyyy_str = Some yyyy"
    and "valid_date yyyy mm dd"
  shows "get_day_on_date_logic py_int dd_str mm_str yyyy_str = Inr ((weekday (yyyy, mm, dd) + 5) mod 7)"
    and "get_day_on_date_logic py_int dd_str mm_str yyyy_str
           = Inr ([5, 6, 0, 1, 2, 3, 4] ! nat (weekday (yyyy, mm, dd)))"
proof -
  from assms show r: "get_day_on_date_logic py_int dd_str mm_str yyyy_str
                        = Inr ((weekday (yyyy, mm, dd) + 5) mod 7)"
    by (simp add: get_day_on_date_logic_def datetime_valid)
  from weekday_range [of "(yyyy, mm, dd)"] remap_table [of "weekday (yyyy, mm, dd)"] r
  show "get_day_on_date_logic py_int dd_str mm_str yyyy_str
           = Inr ([5, 6, 0, 1, 2, 3, 4] ! nat (weekday (yyyy, mm, dd)))"
    by simp
qed

lemma day_index_invalid_in_range:
  assumes "py_int dd_str = Some dd" and "py_int mm_str = Some mm" and "py_int yyyy_str = Some yyyy"
    and "\<not> valid_date yyyy mm dd"
    and "c_int_arg yyyy = None" and "c_int_arg mm = None" and "c_int_arg dd = None"
  shows "get_day_on_date_logic py_int dd_str mm_str yyyy_str = Inr (- 1)"
  using assms by (simp add: get_day_on_date_logic_def datetime_def)

lemma day_index_range:
  assumes "get_day_on_date_logic py_int dd_str mm_str yyyy_str = Inr r"
  shows "r = - 1 \<or> (0 \<le> r \<and> r \<le> 6)"
  using assms mod7_range
  by (auto simp: get_day_on_date_logic_def Let_def
      split: option.splits sum.splits py_error.splits)

lemma day_index_examples:
  "weekday (2024, 1, 1) = 0" "get_day_on_date_logic decimal ''1'' ''1'' ''2024'' = Inr 5"
  "weekday (2024, 1, 3) = 2" "get_day_on_date_logic decimal ''3'' ''1'' ''2024'' = Inr 0"
  "get_day_on_date_logic decimal ''31'' ''2'' ''2024'' = Inr (- 1)"
  by code_simp+

text \<open>
  Claim C5. For day, month and year texts that Python's \<^verbatim>\<open>int\<close> reads as a valid calendar
  date, \<^verbatim>\<open>get_day_on_date_logic\<close> returns \<open>(w + 5) mod 7\<close>, where \<open>w\<close> is the weekday of the date
  with Monday as 0 (\<open>day_index_valid\<close>, \<open>day_index_examples\<close>), and a result it returns is
  \<open>-1\<close> or between 0 and 6 (\<open>day_index_range\<close>). The claim also has \<open>-1\<close> returned for every
  invalid date. That holds while the three numbers fit a C \<^verbatim>\<open>int\<close>
  (\<open>day_index_invalid_in_range\<close>). For day 1, month 1, year 2147483648, which is not a date,
  the constructor raises OverflowError; the handler catches ValueError only, so the
  exception leaves the function and no \<open>-1\<close> is returned.
\<close>

theorem day_index_overflow_escapes:
  "decimal ''1'' = Some 1 \<and> decimal ''2147483648'' = Some 2147483648
   \<and> \<not> valid_date 2147483648 1 1
   \<and> get_day_on_date_logic decimal ''1'' ''1'' ''2147483648''
       = Inl (OverflowError ''signed integer is greater than maximum'')
   \<and> get_day_on_date_logic decimal ''1'' ''1'' ''2147483648'' \<noteq> Inr (- 1)"
  by code_simp

end
